theory Spec2Isabelle
  imports Main "HOL-Library.Multiset" "HOL-Library.Option_ord"
begin

section \<open>Shared data\<close>

text \<open>
  A MongoDB \<open>ObjectId\<close> is an opaque identifier; only equality is ever used on it.
  A JavaScript \<open>Date\<close> is its number of milliseconds since the epoch, an integer;
  all sums below stay far inside the range where JavaScript numbers are exact integers.
  \<open>Date.now()\<close> is not a function of the program state: every call of it in the source
  is a separate argument of the model (a clock reading).
\<close>

type_synonym objectId = nat
type_synonym msDate = int

text \<open>
  The responses by which a route handler returns early. Each constructor is one
  \<open>return res.status(...).json(...)\<close> of the source; \<open>ServerError\<close> is the one in
  the \<open>catch\<close> of every handler, reached when \<open>save()\<close> throws.
\<close>

datatype httpError =
    ValidationFailed      \<comment> \<open>400, \<open>{ errors: errors.array() }\<close>\<close>
  | SupplierNotFound      \<comment> \<open>400, 'Supplier not found'\<close>
  | PartNotFound objectId \<comment> \<open>400, 'Part with ID ... not found'\<close>
  | OrderNotFound         \<comment> \<open>404, 'Order not found'\<close>
  | ScheduleNotFound      \<comment> \<open>404, 'Schedule not found'\<close>
  | SchedulingConflict    \<comment> \<open>400, 'Technician has a scheduling conflict during this time'\<close>
  | CannotStart           \<comment> \<open>400, 'Can only start scheduled appointments'\<close>
  | CannotComplete        \<comment> \<open>400, 'Can only complete in-progress appointments'\<close>
  | ServerError           \<comment> \<open>500, 'Server error'\<close>

text \<open>
  \<open>document.save()\<close> of Mongoose validates the document against its schema first and
  runs the schema's own \<open>pre('save')\<close> hooks only if the validation passed; a failed
  validation throws, nothing is written, and the handler answers \<open>ServerError\<close>.
  Documents that are in a collection were stored through their schema and satisfy it.
  The validation is therefore written out where the request itself decides it: for a new
  order (its \<open>orderNumber\<close>) and for the \<open>title\<close> that a request gives an appointment.
\<close>

text \<open>
  \<open>models/Part.js\<close>: of a part only \<open>quantityInStock\<close> is read or written by the
  routes modelled here. The collection is a map from \<open>_id\<close> to document:
  \<open>Part.findById\<close> is application, \<open>part.save()\<close> is a map update.
\<close>

record part =
  quantityInStock :: int

type_synonym partStore = "objectId \<rightharpoonup> part"

section \<open>Orders: \<open>models/Order.js\<close> and the routes of \<open>/api/orders\<close>\<close>

datatype orderStatus = pending | confirmed | shipped | delivered | cancelled

record orderLine =
  ol_part :: objectId
  ol_quantity :: int

text \<open>
  The order document. Prices and totals (floating point), shipping information, notes and
  the populated references are left out: no route modelled here branches on them.
  \<open>orderNumber\<close> is the text \<open>ORD-\<close> followed by the last six decimal digits of a
  clock reading; it is kept as that reading modulo \<open>10\<^sup>6\<close>.
\<close>

record order =
  oid :: objectId
  supplier :: objectId
  parts :: "orderLine list"
  orderNumber :: "int option"
  ostatus :: orderStatus
  orderDate :: msDate
  customTimeLimit :: int
  countdownEndTime :: "msDate option"

subsection \<open>The pre-save hook and the \<open>countdownStatus\<close> virtual\<close>

definition hoursToMs :: "int \<Rightarrow> int" where
  "hoursToMs h = h * 60 * 60 * 1000"

text \<open>
  \<open>orderSchema.pre('save')\<close>: \<open>tNumber\<close> and \<open>tCountdown\<close> are the two calls of
  \<open>Date.now()\<close> in the hook, in source order. \<open>if (this.customTimeLimit)\<close> is
  JavaScript truthiness of a number: non-zero.
\<close>

definition orderPreSave :: "msDate \<Rightarrow> msDate \<Rightarrow> bool \<Rightarrow> order \<Rightarrow> order" where
  "orderPreSave tNumber tCountdown isNew ord =
     (if isNew then
        let ord1 = ord\<lparr>orderNumber := Some (tNumber mod 1000000)\<rparr>
        in if customTimeLimit ord1 \<noteq> 0
           then ord1\<lparr>countdownEndTime := Some (tCountdown + hoursToMs (customTimeLimit ord1))\<rparr>
           else ord1
      else ord)"

datatype countdownLabel = Overdue | Urgent | Normal

text \<open>
  The object returned by the \<open>countdownStatus\<close> getter, without its \<open>message\<close> text.
  The overdue branch has no \<open>hours\<close> and \<open>minutes\<close>.
\<close>

record countdownInfo =
  cs_status :: countdownLabel
  cs_timeLeft :: int
  cs_hours :: "int option"
  cs_minutes :: "int option"

text \<open>
  The getter reads \<open>this.countdownEndTime\<close> and the clock only. A \<open>Date\<close> object is
  always truthy, so \<open>!this.countdownEndTime\<close> holds exactly when the field is absent
  (\<open>null\<close> is returned: \<open>None\<close>). In the second branch \<open>timeLeft\<close> is positive, where
  \<open>Math.floor\<close> of the quotient and JavaScript's \<open>%\<close> are \<open>div\<close> and \<open>mod\<close>.
\<close>

definition countdownStatus :: "msDate \<Rightarrow> msDate option \<Rightarrow> countdownInfo option" where
  "countdownStatus now cet =
     (case cet of
        None \<Rightarrow> None
      | Some endT \<Rightarrow>
          let timeLeft = endT - now in
          if timeLeft \<le> 0
          then Some \<lparr>cs_status = Overdue, cs_timeLeft = 0, cs_hours = None, cs_minutes = None\<rparr>
          else
            let hours = timeLeft div (1000 * 60 * 60);
                minutes = (timeLeft mod (1000 * 60 * 60)) div (1000 * 60)
            in Some \<lparr>cs_status = (if hours < 24 then Urgent else Normal),
                     cs_timeLeft = timeLeft, cs_hours = Some hours, cs_minutes = Some minutes\<rparr>)"

subsection \<open>The shipping queries\<close>

text \<open>
  \<open>Order.find({...}).sort({ countdownEndTime: 1 })\<close> over the collection as a list.
  A comparison operator of a MongoDB filter matches only documents that have the field.
  The sort is ascending in the field, a missing field before every date, which is the
  order of \<open>msDate option\<close>; MongoDB leaves the order of equal keys open, the model
  keeps them in collection order.
\<close>

definition overdueFilter :: "msDate \<Rightarrow> order \<Rightarrow> bool" where
  "overdueFilter now ord =
     (ostatus ord \<in> set [confirmed, shipped] \<and>
      (case countdownEndTime ord of None \<Rightarrow> False | Some t \<Rightarrow> t < now))"

definition overdueOrders :: "msDate \<Rightarrow> order list \<Rightarrow> order list" where
  "overdueOrders now db = sort_key countdownEndTime (filter (overdueFilter now) db)"

definition urgentFilter :: "msDate \<Rightarrow> order \<Rightarrow> bool" where
  "urgentFilter now ord =
     (let twentyFourHours = now + 24 * 60 * 60 * 1000 in
      ostatus ord \<in> set [confirmed, shipped] \<and>
      (case countdownEndTime ord of None \<Rightarrow> False | Some t \<Rightarrow> t > now \<and> t < twentyFourHours))"

definition urgentOrders :: "msDate \<Rightarrow> order list \<Rightarrow> order list" where
  "urgentOrders now db = sort_key countdownEndTime (filter (urgentFilter now) db)"

subsection \<open>\<open>POST /api/orders\<close>\<close>

text \<open>
  The request body, as far as the handler reads it. The validator chain of the route:
  \<open>parts\<close> is an array of at least one element, every \<open>quantity\<close> is an integer
  \<open>\<ge> 1\<close>, \<open>customTimeLimit\<close> is optional and otherwise an integer in \<open>[1,168]\<close>.
  That the ids are well-formed and every \<open>unitPrice\<close> is a non-negative float is part
  of the request's type here.
\<close>

record orderCreateBody =
  b_supplier :: objectId
  b_parts :: "orderLine list"
  b_customTimeLimit :: "int option"

definition validCustomTimeLimit :: "int option \<Rightarrow> bool" where
  "validCustomTimeLimit l = (case l of None \<Rightarrow> True | Some n \<Rightarrow> 1 \<le> n \<and> n \<le> 168)"

definition validOrderCreate :: "orderCreateBody \<Rightarrow> bool" where
  "validOrderCreate b =
     (1 \<le> length (b_parts b) \<and> list_all (\<lambda>l. 1 \<le> ol_quantity l) (b_parts b) \<and>
      validCustomTimeLimit (b_customTimeLimit b))"

text \<open>The loop that verifies every ordered part; it returns at the first missing one.\<close>

fun verifyParts :: "partStore \<Rightarrow> orderLine list \<Rightarrow> httpError + orderLine list" where
  "verifyParts ps [] = Inr []"
| "verifyParts ps (l # ls) =
     (case ps (ol_part l) of
        None \<Rightarrow> Inl (PartNotFound (ol_part l))
      | Some p \<Rightarrow>
          (case verifyParts ps ls of
             Inl e \<Rightarrow> Inl e
           | Inr r \<Rightarrow> Inr (\<lparr>ol_part = ol_part l, ol_quantity = ol_quantity l\<rparr> # r)))"

text \<open>\<open>req.body.customTimeLimit || 72\<close>: an absent or zero value gives 72.\<close>

definition limitOrDefault :: "int option \<Rightarrow> int" where
  "limitOrDefault l = (case l of None \<Rightarrow> 72 | Some n \<Rightarrow> if n = 0 then 72 else n)"

text \<open>
  \<open>new Order({...})\<close>: the schema defaults give \<open>status = 'pending'\<close> and
  \<open>orderDate = Date.now()\<close>, read when the document is constructed (\<open>tNew\<close>).
\<close>

definition newOrder :: "objectId \<Rightarrow> msDate \<Rightarrow> objectId \<Rightarrow> orderLine list \<Rightarrow> int \<Rightarrow> order" where
  "newOrder newId tNew supplierId ls lim =
     \<lparr>oid = newId, supplier = supplierId, parts = ls, orderNumber = None, ostatus = pending,
      orderDate = tNew, customTimeLimit = lim, countdownEndTime = None\<rparr>"

text \<open>
  The \<open>required\<close> paths of the order schema are \<open>orderNumber\<close>, \<open>supplier\<close>,
  \<open>totalAmount\<close>, \<open>createdBy\<close> and the fields of each part line. The handler
  passes all of them to \<open>new Order\<close> except \<open>orderNumber\<close>, which only the
  pre-save hook assigns.
\<close>

definition orderRequired :: "order \<Rightarrow> bool" where
  "orderRequired ord = (orderNumber ord \<noteq> None)"

text \<open>\<open>order.save()\<close> of a new document: validation, then the hook, then the insert.\<close>

definition saveNewOrder ::
  "msDate \<Rightarrow> msDate \<Rightarrow> order \<Rightarrow> order list \<Rightarrow> (httpError + order) \<times> order list" where
  "saveNewOrder tNumber tCountdown ord db =
     (if \<not> orderRequired ord then (Inl ServerError, db)
      else let ord1 = orderPreSave tNumber tCountdown True ord in (Inr ord1, db @ [ord1]))"

text \<open>
  The handler. The result is the response and the collection after the request.
  \<open>contacts\<close> is the set of ids in the Contact collection.
\<close>

definition createOrder ::
  "objectId \<Rightarrow> msDate \<Rightarrow> msDate \<Rightarrow> msDate \<Rightarrow> orderCreateBody \<Rightarrow> objectId set \<Rightarrow> partStore \<Rightarrow>
   order list \<Rightarrow> (httpError + order) \<times> order list" where
  "createOrder newId tNew tNumber tCountdown b contacts ps db =
     (if \<not> validOrderCreate b then (Inl ValidationFailed, db)
      else if b_supplier b \<notin> contacts then (Inl SupplierNotFound, db)
      else
        (case verifyParts ps (b_parts b) of
           Inl e \<Rightarrow> (Inl e, db)
         | Inr ls \<Rightarrow>
             saveNewOrder tNumber tCountdown
               (newOrder newId tNew (b_supplier b) ls (limitOrDefault (b_customTimeLimit b))) db))"

subsection \<open>\<open>PUT /api/orders/:id\<close>\<close>

definition findOrder :: "objectId \<Rightarrow> order list \<Rightarrow> order option" where
  "findOrder i db = find (\<lambda>d. oid d = i) db"

definition saveOrder :: "order \<Rightarrow> order list \<Rightarrow> order list" where
  "saveOrder ord db = map (\<lambda>d. if oid d = oid ord then ord else d) db"

text \<open>
  The body of an update may hold any field of the document: \<open>Object.assign(order, req.body)\<close>
  copies each one that is present. The fields of the model other than the references are kept.
  Only \<open>status\<close> (a member of the enumeration: its type) and \<open>customTimeLimit\<close> are validated.
\<close>

record orderUpdateBody =
  u_status :: "orderStatus option"
  u_orderDate :: "msDate option"
  u_customTimeLimit :: "int option"
  u_countdownEndTime :: "msDate option"

definition validOrderUpdate :: "orderUpdateBody \<Rightarrow> bool" where
  "validOrderUpdate b = validCustomTimeLimit (u_customTimeLimit b)"

definition assignOrder :: "order \<Rightarrow> orderUpdateBody \<Rightarrow> order" where
  "assignOrder ord b =
     ord\<lparr>ostatus := (case u_status b of None \<Rightarrow> ostatus ord | Some s \<Rightarrow> s),
         orderDate := (case u_orderDate b of None \<Rightarrow> orderDate ord | Some t \<Rightarrow> t),
         customTimeLimit := (case u_customTimeLimit b of None \<Rightarrow> customTimeLimit ord | Some n \<Rightarrow> n),
         countdownEndTime := (case u_countdownEndTime b of None \<Rightarrow> countdownEndTime ord | Some t \<Rightarrow> Some t)\<rparr>"

text \<open>
  \<open>now\<close> is the one call of \<open>Date.now()\<close> in the handler. The guard
  \<open>req.body.customTimeLimit && req.body.customTimeLimit !== order.customTimeLimit\<close> is
  a present, non-zero value that differs from the stored one. The save is of an existing
  document, where the pre-save hook changes nothing and reads no clock; the document was
  loaded from the collection and none of the body's fields kept here can break the schema.
\<close>

definition recomputeCountdown :: "msDate \<Rightarrow> orderUpdateBody \<Rightarrow> order \<Rightarrow> order" where
  "recomputeCountdown now b ord =
     (case u_customTimeLimit b of
        None \<Rightarrow> ord
      | Some n \<Rightarrow>
          if n \<noteq> 0 \<and> n \<noteq> customTimeLimit ord
          then ord\<lparr>customTimeLimit := n, countdownEndTime := Some (now + hoursToMs n)\<rparr>
          else ord)"

definition updateOrder ::
  "msDate \<Rightarrow> objectId \<Rightarrow> orderUpdateBody \<Rightarrow> order list \<Rightarrow> (httpError + order) \<times> order list" where
  "updateOrder now i b db =
     (if \<not> validOrderUpdate b then (Inl ValidationFailed, db)
      else
        (case findOrder i db of
           None \<Rightarrow> (Inl OrderNotFound, db)
         | Some ord \<Rightarrow>
             let ord1 = recomputeCountdown now b ord;
                 ord2 = orderPreSave now now False (assignOrder ord1 b)
             in (Inr ord2, saveOrder ord2 db)))"

section \<open>Appointments: \<open>models/Schedule.js\<close> and \<open>routes/schedule.js\<close>\<close>

datatype scheduleStatus = scheduled | in_progress | completed | appt_cancelled | no_show

record requiredPart =
  rp_part :: objectId
  rp_quantity :: int
  rp_isAvailable :: bool

text \<open>
  The appointment document. Customer, costs (floating point), notes and reminders are
  left out; \<open>stype\<close> is the field \<open>type\<close>, \<open>sstatus\<close> the field \<open>status\<close>.
\<close>

record schedule =
  sid :: objectId
  title :: string
  stype :: string
  startTime :: msDate
  endTime :: msDate
  duration :: int
  sstatus :: scheduleStatus
  assignedTechnician :: "objectId option"
  requiredParts :: "requiredPart list"

text \<open>
  The schema declares \<open>title\<close> with \<open>trim: true\<close> and \<open>required: true\<close>: every value
  assigned to the field is stored as \<open>value.trim()\<close>, and a document whose title is the
  empty string fails validation. Strings are ASCII here, where the characters that
  \<open>trim\<close> removes from both ends are tab, line feed, vertical tab, form feed, carriage
  return and space.
\<close>

definition isBlank :: "char \<Rightarrow> bool" where
  "isBlank c = (c \<in> set [CHR 0x09, CHR 0x0A, CHR 0x0B, CHR 0x0C, CHR 0x0D, CHR '' ''])"

definition trim :: "string \<Rightarrow> string" where
  "trim s = rev (dropWhile isBlank (rev (dropWhile isBlank s)))"

definition scheduleRequired :: "schedule \<Rightarrow> bool" where
  "scheduleRequired s = (title s \<noteq> [])"

definition findSchedule :: "objectId \<Rightarrow> schedule list \<Rightarrow> schedule option" where
  "findSchedule i db = find (\<lambda>d. sid d = i) db"

definition saveSchedule :: "schedule \<Rightarrow> schedule list \<Rightarrow> schedule list" where
  "saveSchedule s db = map (\<lambda>d. if sid d = sid s then s else d) db"

subsection \<open>The conflict query\<close>

text \<open>
  The filter of the \<open>Schedule.findOne\<close> call of both handlers; \<open>exclude\<close> is the
  \<open>_id: { $ne: schedule._id }\<close> that only the update has. The \<open>$or\<close> has one alternative.
\<close>

definition conflictFilter ::
  "objectId option \<Rightarrow> objectId \<Rightarrow> msDate \<Rightarrow> msDate \<Rightarrow> schedule \<Rightarrow> bool" where
  "conflictFilter exclude technician startT endT d =
     ((case exclude of None \<Rightarrow> True | Some i \<Rightarrow> sid d \<noteq> i) \<and>
      assignedTechnician d = Some technician \<and>
      sstatus d \<in> set [scheduled, in_progress] \<and>
      (startTime d < endT \<and> endTime d > startT))"

text \<open>\<open>if (conflict)\<close>: the query found a document.\<close>

definition hasConflict ::
  "objectId option \<Rightarrow> objectId \<Rightarrow> msDate \<Rightarrow> msDate \<Rightarrow> schedule list \<Rightarrow> bool" where
  "hasConflict exclude technician startT endT db =
     (find (conflictFilter exclude technician startT endT) db \<noteq> None)"

subsection \<open>\<open>POST /api/schedule\<close>\<close>

text \<open>
  The request body, as far as the handler and the fields kept above read it; the times
  are the parsed \<open>new Date(req.body.startTime)\<close> and \<open>new Date(req.body.endTime)\<close>.
  The validator chain: \<open>title\<close> is not empty (\<open>notEmpty()\<close> looks at the length of
  the string as sent, so a title of blanks passes), \<open>type\<close> is one of the seven kinds,
  \<open>duration\<close> is an integer \<open>\<ge> 15\<close>, the technician is optional. A body without
  \<open>requiredParts\<close> is one with the empty list. The body is spread into the new document,
  so a \<open>status\<close> in it replaces the schema default \<open>'scheduled'\<close>.
\<close>

record scheduleCreateBody =
  c_title :: string
  c_type :: string
  c_startTime :: msDate
  c_endTime :: msDate
  c_duration :: int
  c_status :: "scheduleStatus option"
  c_assignedTechnician :: "objectId option"
  c_requiredParts :: "requiredPart list"

definition scheduleTypes :: "string list" where
  "scheduleTypes =
     [''appointment'', ''maintenance'', ''repair'', ''inspection'', ''delivery'', ''meeting'', ''other'']"

definition validScheduleCreate :: "scheduleCreateBody \<Rightarrow> bool" where
  "validScheduleCreate b =
     (c_title b \<noteq> [] \<and> c_type b \<in> set scheduleTypes \<and> 15 \<le> c_duration b)"

text \<open>
  The loop over \<open>req.body.requiredParts\<close>: a missing part ends the request, a part with
  too little stock only marks the entry as not available.
\<close>

fun checkRequiredParts :: "partStore \<Rightarrow> requiredPart list \<Rightarrow> httpError + requiredPart list" where
  "checkRequiredParts ps [] = Inr []"
| "checkRequiredParts ps (rp # rps) =
     (case ps (rp_part rp) of
        None \<Rightarrow> Inl (PartNotFound (rp_part rp))
      | Some p \<Rightarrow>
          (case checkRequiredParts ps rps of
             Inl e \<Rightarrow> Inl e
           | Inr r \<Rightarrow>
               Inr ((if quantityInStock p < rp_quantity rp then rp\<lparr>rp_isAvailable := False\<rparr> else rp) # r)))"

definition newSchedule :: "objectId \<Rightarrow> scheduleCreateBody \<Rightarrow> requiredPart list \<Rightarrow> schedule" where
  "newSchedule newId b rps =
     \<lparr>sid = newId, title = trim (c_title b), stype = c_type b, startTime = c_startTime b,
      endTime = c_endTime b, duration = c_duration b,
      sstatus = (case c_status b of None \<Rightarrow> scheduled | Some st \<Rightarrow> st),
      assignedTechnician = c_assignedTechnician b, requiredParts = rps\<rparr>"

text \<open>\<open>schedule.save()\<close> of a new document: validation, then the insert.\<close>

definition saveNewSchedule :: "schedule \<Rightarrow> schedule list \<Rightarrow> (httpError + schedule) \<times> schedule list" where
  "saveNewSchedule s db =
     (if \<not> scheduleRequired s then (Inl ServerError, db) else (Inr s, db @ [s]))"

definition createSchedule ::
  "objectId \<Rightarrow> scheduleCreateBody \<Rightarrow> partStore \<Rightarrow> schedule list \<Rightarrow>
   (httpError + schedule) \<times> schedule list" where
  "createSchedule newId b ps db =
     (if \<not> validScheduleCreate b then (Inl ValidationFailed, db)
      else if (case c_assignedTechnician b of
                 None \<Rightarrow> False
               | Some t \<Rightarrow> hasConflict None t (c_startTime b) (c_endTime b) db)
      then (Inl SchedulingConflict, db)
      else
        (case checkRequiredParts ps (c_requiredParts b) of
           Inl e \<Rightarrow> (Inl e, db)
         | Inr rps \<Rightarrow> saveNewSchedule (newSchedule newId b rps) db))"

subsection \<open>\<open>PUT /api/schedule/:id\<close>\<close>

record scheduleUpdateBody =
  su_title :: "string option"
  su_type :: "string option"
  su_startTime :: "msDate option"
  su_endTime :: "msDate option"
  su_status :: "scheduleStatus option"
  su_assignedTechnician :: "objectId option"

definition validScheduleUpdate :: "scheduleUpdateBody \<Rightarrow> bool" where
  "validScheduleUpdate b =
     ((case su_title b of None \<Rightarrow> True | Some t \<Rightarrow> t \<noteq> []) \<and>
      (case su_type b of None \<Rightarrow> True | Some ty \<Rightarrow> ty \<in> set scheduleTypes))"

text \<open>
  The conflict check of the update: it runs only if the body holds a time or a technician
  and the stored appointment is still \<open>'scheduled'\<close>; \<open>a || b\<close> on optional fields takes
  the body's value when present, else the stored one.
\<close>

definition updateConflict :: "schedule \<Rightarrow> scheduleUpdateBody \<Rightarrow> schedule list \<Rightarrow> bool" where
  "updateConflict sch b db =
     ((su_startTime b \<noteq> None \<or> su_endTime b \<noteq> None \<or> su_assignedTechnician b \<noteq> None) \<and>
      sstatus sch = scheduled \<and>
      (let startT = (case su_startTime b of None \<Rightarrow> startTime sch | Some t \<Rightarrow> t);
           endT = (case su_endTime b of None \<Rightarrow> endTime sch | Some t \<Rightarrow> t);
           technician = (case su_assignedTechnician b of
                           None \<Rightarrow> assignedTechnician sch | Some t \<Rightarrow> Some t)
       in case technician of
            None \<Rightarrow> False
          | Some t \<Rightarrow> hasConflict (Some (sid sch)) t startT endT db))"

definition assignSchedule :: "schedule \<Rightarrow> scheduleUpdateBody \<Rightarrow> schedule" where
  "assignSchedule sch b =
     sch\<lparr>title := (case su_title b of None \<Rightarrow> title sch | Some t \<Rightarrow> trim t),
         stype := (case su_type b of None \<Rightarrow> stype sch | Some ty \<Rightarrow> ty),
         startTime := (case su_startTime b of None \<Rightarrow> startTime sch | Some t \<Rightarrow> t),
         endTime := (case su_endTime b of None \<Rightarrow> endTime sch | Some t \<Rightarrow> t),
         sstatus := (case su_status b of None \<Rightarrow> sstatus sch | Some st \<Rightarrow> st),
         assignedTechnician := (case su_assignedTechnician b of
                                  None \<Rightarrow> assignedTechnician sch | Some t \<Rightarrow> Some t)\<rparr>"

definition updateSchedule ::
  "objectId \<Rightarrow> scheduleUpdateBody \<Rightarrow> schedule list \<Rightarrow> (httpError + schedule) \<times> schedule list" where
  "updateSchedule i b db =
     (if \<not> validScheduleUpdate b then (Inl ValidationFailed, db)
      else
        (case findSchedule i db of
           None \<Rightarrow> (Inl ScheduleNotFound, db)
         | Some sch \<Rightarrow>
             if updateConflict sch b db then (Inl SchedulingConflict, db)
             else
               let s = assignSchedule sch b
               in if \<not> scheduleRequired s then (Inl ServerError, db)
                  else (Inr s, saveSchedule s db)))"

subsection \<open>\<open>POST /api/schedule/:id/start\<close> and \<open>POST /api/schedule/:id/complete\<close>\<close>

text \<open>
  Both handlers load a document, change its \<open>status\<close> to a member of the enumeration
  and save it: the request has no part in whether the document satisfies the schema.
\<close>

definition startSchedule ::
  "objectId \<Rightarrow> schedule list \<Rightarrow> (httpError + schedule) \<times> schedule list" where
  "startSchedule i db =
     (case findSchedule i db of
        None \<Rightarrow> (Inl ScheduleNotFound, db)
      | Some sch \<Rightarrow>
          if sstatus sch \<noteq> scheduled then (Inl CannotStart, db)
          else let s = sch\<lparr>sstatus := in_progress\<rparr> in (Inr s, saveSchedule s db))"

text \<open>
  The inventory loop of the completion: \<open>if (part && requiredPart.quantity)\<close> skips a
  part that is not in the collection and an entry whose quantity is zero.
\<close>

fun useParts :: "requiredPart list \<Rightarrow> partStore \<Rightarrow> partStore" where
  "useParts [] ps = ps"
| "useParts (rp # rps) ps =
     (case ps (rp_part rp) of
        None \<Rightarrow> useParts rps ps
      | Some p \<Rightarrow>
          if rp_quantity rp \<noteq> 0
          then useParts rps
                 (ps(rp_part rp \<mapsto> p\<lparr>quantityInStock := max 0 (quantityInStock p - rp_quantity rp)\<rparr>))
          else useParts rps ps)"

text \<open>
  The completion takes a request whose optional \<open>actualCost\<close> (floating point, not kept)
  has passed its validators. The result is the response, the Part collection and the
  Schedule collection after the request.
\<close>

definition completeSchedule ::
  "objectId \<Rightarrow> partStore \<Rightarrow> schedule list \<Rightarrow>
   (httpError + schedule) \<times> partStore \<times> schedule list" where
  "completeSchedule i ps db =
     (case findSchedule i db of
        None \<Rightarrow> (Inl ScheduleNotFound, ps, db)
      | Some sch \<Rightarrow>
          if sstatus sch \<noteq> in_progress then (Inl CannotComplete, ps, db)
          else
            let s = sch\<lparr>sstatus := completed\<rparr>;
                ps1 = (if 0 < length (requiredParts s) then useParts (requiredParts s) ps else ps)
            in (Inr s, ps1, saveSchedule s db))"

text \<open>
  The quantity of one part that an appointment requires: the sum over the entries of
  \<open>requiredParts\<close> that name it.
\<close>

definition requiredQuantity :: "objectId \<Rightarrow> requiredPart list \<Rightarrow> int" where
  "requiredQuantity pid rps = sum_list (map rp_quantity (filter (\<lambda>rp. rp_part rp = pid) rps))"

section \<open>Sample documents\<close>

text \<open>Concrete requests and collections at which the theorems below are instantiated.\<close>

abbreviation sampleOrder :: "orderStatus \<Rightarrow> msDate option \<Rightarrow> order" where
  "sampleOrder st cet \<equiv>
     \<lparr>oid = 1, supplier = 7, parts = [], orderNumber = Some 1, ostatus = st,
      orderDate = 0, customTimeLimit = 72, countdownEndTime = cet\<rparr>"

abbreviation sampleOrderBody :: "int option \<Rightarrow> orderCreateBody" where
  "sampleOrderBody l \<equiv>
     \<lparr>b_supplier = 7, b_parts = [\<lparr>ol_part = 3, ol_quantity = 2\<rparr>], b_customTimeLimit = l\<rparr>"

abbreviation sampleParts :: partStore where
  "sampleParts \<equiv> [3 \<mapsto> \<lparr>quantityInStock = 5\<rparr>]"

abbreviation sampleUpdate :: "int option \<Rightarrow> msDate option \<Rightarrow> orderUpdateBody" where
  "sampleUpdate l cet \<equiv>
     \<lparr>u_status = None, u_orderDate = None, u_customTimeLimit = l, u_countdownEndTime = cet\<rparr>"

abbreviation sampleSchedule ::
  "objectId \<Rightarrow> msDate \<Rightarrow> msDate \<Rightarrow> scheduleStatus \<Rightarrow> objectId option \<Rightarrow> requiredPart list \<Rightarrow> schedule" where
  "sampleSchedule i s e st tech rps \<equiv>
     \<lparr>sid = i, title = ''Oil change'', stype = ''maintenance'', startTime = s, endTime = e,
      duration = 60, sstatus = st, assignedTechnician = tech, requiredParts = rps\<rparr>"

abbreviation sampleScheduleBody :: "msDate \<Rightarrow> msDate \<Rightarrow> objectId option \<Rightarrow> scheduleCreateBody" where
  "sampleScheduleBody s e tech \<equiv>
     \<lparr>c_title = ''Oil change'', c_type = ''maintenance'', c_startTime = s, c_endTime = e,
      c_duration = 60, c_status = None, c_assignedTechnician = tech, c_requiredParts = []\<rparr>"

abbreviation sampleScheduleUpdate :: "msDate option \<Rightarrow> msDate option \<Rightarrow> scheduleUpdateBody" where
  "sampleScheduleUpdate s e \<equiv>
     \<lparr>su_title = None, su_type = None, su_startTime = s, su_endTime = e, su_status = None,
      su_assignedTechnician = None\<rparr>"

section \<open>Properties of the order countdown\<close>

lemma hours_lt_24: "((x::int) div (1000 * 60 * 60) < 24) = (x < 24 * 60 * 60 * 1000)"
  by simp linarith

text \<open>
  Claim C4. For every \<open>countdownEndTime\<close> and \<open>now\<close> the getter gives exactly one of
  four answers: no deadline (\<open>None\<close>) when the field is absent, and otherwise overdue when
  the remaining time is \<open>\<le> 0\<close>, urgent when it is positive and below 24 hours, normal from
  24 hours on. A remaining time of exactly 24 hours is normal, of exactly 0 overdue.
\<close>

theorem countdownStatus_classify:
  "countdownStatus now None = None \<and>
   map_option cs_status (countdownStatus now (Some t)) =
     Some (if t - now \<le> 0 then Overdue else if t - now < 24 * 60 * 60 * 1000 then Urgent else Normal) \<and>
   map_option cs_status (countdownStatus now (Some (now + 24 * 60 * 60 * 1000))) = Some Normal \<and>
   map_option cs_status (countdownStatus now (Some now)) = Some Overdue"
  using hours_lt_24 [of "t - now"] by (simp add: countdownStatus_def Let_def)

theorem countdownStatus_classify_witness:
  "map_option cs_status (countdownStatus 255600000 (Some 259200000)) = Some Urgent \<and>
   map_option cs_status (countdownStatus 262800000 (Some 259200000)) = Some Overdue \<and>
   map_option cs_status (countdownStatus 0 (Some 259200000)) = Some Normal"
  using countdownStatus_classify [of 255600000 259200000]
        countdownStatus_classify [of 262800000 259200000]
        countdownStatus_classify [of 0 259200000]
  by simp

lemma urgentFilter_iff:
  "urgentFilter now ord \<longleftrightarrow>
     (ostatus ord \<in> {confirmed, shipped} \<and>
      (\<exists>t. countdownEndTime ord = Some t \<and> 0 < t - now \<and> t - now < 24 * 60 * 60 * 1000))"
  by (auto simp: urgentFilter_def Let_def split: option.splits)

text \<open>
  Claim C6. The urgent query returns exactly the orders (with their multiplicity in the
  collection) whose status is confirmed or shipped and whose deadline is more than 0 and
  less than 24 hours after \<open>now\<close>, in ascending order of \<open>countdownEndTime\<close>.
\<close>

theorem urgentOrders_exact:
  "mset (urgentOrders now db) =
     filter_mset (\<lambda>ord. ostatus ord \<in> {confirmed, shipped} \<and>
        (\<exists>t. countdownEndTime ord = Some t \<and> 0 < t - now \<and> t - now < 24 * 60 * 60 * 1000)) (mset db) \<and>
   sorted (map countdownEndTime (urgentOrders now db))"
proof -
  have "filter (urgentFilter now) db = filter (\<lambda>ord. ostatus ord \<in> {confirmed, shipped} \<and>
        (\<exists>t. countdownEndTime ord = Some t \<and> 0 < t - now \<and> t - now < 24 * 60 * 60 * 1000)) db"
    by (rule filter_cong) (simp_all add: urgentFilter_iff)
  then show ?thesis by (simp add: urgentOrders_def)
qed

theorem urgentOrders_exact_witness:
  "mset (urgentOrders 1000
      [sampleOrder shipped (Some 5000), sampleOrder delivered (Some 3000),
       sampleOrder confirmed (Some 2000), sampleOrder confirmed (Some 1000),
       sampleOrder confirmed (Some 86401000), sampleOrder pending None])
   = {#sampleOrder shipped (Some 5000), sampleOrder confirmed (Some 2000)#} \<and>
   sorted (map countdownEndTime (urgentOrders 1000
      [sampleOrder shipped (Some 5000), sampleOrder delivered (Some 3000),
       sampleOrder confirmed (Some 2000), sampleOrder confirmed (Some 1000),
       sampleOrder confirmed (Some 86401000), sampleOrder pending None]))"
  using urgentOrders_exact [of 1000
      "[sampleOrder shipped (Some 5000), sampleOrder delivered (Some 3000),
       sampleOrder confirmed (Some 2000), sampleOrder confirmed (Some 1000),
       sampleOrder confirmed (Some 86401000), sampleOrder pending None]"]
  by simp

text \<open>What the overdue query returns: the comparison with \<open>now\<close> is strict.\<close>

lemma overdueFilter_iff:
  "overdueFilter now ord \<longleftrightarrow>
     (ostatus ord \<in> {confirmed, shipped} \<and> (\<exists>t. countdownEndTime ord = Some t \<and> t < now))"
  by (auto simp: overdueFilter_def split: option.splits)

lemma overdueOrders_strict:
  "mset (overdueOrders now db) =
     filter_mset (\<lambda>ord. ostatus ord \<in> {confirmed, shipped} \<and>
        (\<exists>t. countdownEndTime ord = Some t \<and> t < now)) (mset db) \<and>
   sorted (map countdownEndTime (overdueOrders now db))"
proof -
  have "filter (overdueFilter now) db = filter (\<lambda>ord. ostatus ord \<in> {confirmed, shipped} \<and>
        (\<exists>t. countdownEndTime ord = Some t \<and> t < now)) db"
    by (rule filter_cong) (simp_all add: overdueFilter_iff)
  then show ?thesis by (simp add: overdueOrders_def)
qed

text \<open>
  Claim C3. The claim includes in the overdue query an order whose deadline equals
  \<open>now\<close>. The query compares with \<open>$lt\<close>: a confirmed order whose \<open>countdownEndTime\<close>
  is 1000 is not returned at \<open>now = 1000\<close>, nor by the urgent query, although the
  \<open>countdownStatus\<close> getter of the same document answers overdue at that instant.
\<close>

theorem overdueOrders_misses_deadline_equal_now:
  "overdueOrders 1000
     [\<lparr>oid = 1, supplier = 7, parts = [], orderNumber = Some 1, ostatus = confirmed,
       orderDate = 0, customTimeLimit = 72, countdownEndTime = Some 1000\<rparr>] = [] \<and>
   urgentOrders 1000
     [\<lparr>oid = 1, supplier = 7, parts = [], orderNumber = Some 1, ostatus = confirmed,
       orderDate = 0, customTimeLimit = 72, countdownEndTime = Some 1000\<rparr>] = [] \<and>
   map_option cs_status (countdownStatus 1000 (Some 1000)) = Some Overdue"
  by (simp add: overdueOrders_def overdueFilter_def urgentOrders_def urgentFilter_def countdownStatus_def)

lemma verifyParts_all_found:
  "\<forall>l\<in>set ls. ps (ol_part l) \<noteq> None \<Longrightarrow> verifyParts ps ls = Inr ls"
  by (induction ls) auto

text \<open>
  What the hook computes on a new document, whenever it runs: the deadline is the hook's
  own clock reading plus the limit in hours; \<open>orderDate\<close> is not read.
\<close>

lemma orderPreSave_deadline:
  "customTimeLimit ord \<noteq> 0 \<Longrightarrow>
   countdownEndTime (orderPreSave tNumber tCountdown True ord) =
     Some (tCountdown + customTimeLimit ord * 60 * 60 * 1000)"
  by (simp add: orderPreSave_def hoursToMs_def Let_def)

text \<open>
  No creation request gets as far as the hook: the document that the handler constructs
  has no \<open>orderNumber\<close>, its validation fails, and the handler answers with the server
  error and stores nothing.
\<close>

lemma createOrder_never_stores:
  "snd (createOrder newId tNew tNumber tCountdown b contacts ps db) = db \<and>
   (\<forall>ord. fst (createOrder newId tNew tNumber tCountdown b contacts ps db) \<noteq> Inr ord)"
  by (auto simp: createOrder_def saveNewOrder_def orderRequired_def newOrder_def split: sum.splits)

lemma createOrder_valid_request_fails:
  assumes "validOrderCreate b" and "b_supplier b \<in> contacts"
    and "\<forall>l\<in>set (b_parts b). ps (ol_part l) \<noteq> None"
  shows "createOrder newId tNew tNumber tCountdown b contacts ps db = (Inl ServerError, db)"
  using assms verifyParts_all_found [of "b_parts b" ps]
  by (simp add: createOrder_def saveNewOrder_def orderRequired_def newOrder_def)

text \<open>
  Claim C1. The claim gives every created order the deadline \<open>orderDate\<close> plus
  \<open>customTimeLimit\<close> hours. A valid request (supplier 7 and part 3 exist, limit 48) is
  answered with the server error and the collection stays empty: the new document has no
  \<open>orderNumber\<close> when it is validated, so the hook that would assign the number and the
  deadline does not run, and no deadline is computed.
\<close>

theorem createOrder_valid_request_server_error:
  "validOrderCreate (sampleOrderBody (Some 48)) \<and>
   orderNumber (newOrder 1 1000 7 [\<lparr>ol_part = 3, ol_quantity = 2\<rparr>] 48) = None \<and>
   createOrder 1 1000 1001 1002 (sampleOrderBody (Some 48)) {7} sampleParts [] = (Inl ServerError, [])"
  using createOrder_valid_request_fails [of "sampleOrderBody (Some 48)" "{7}" sampleParts 1 1000 1001 1002 "[]"]
  by (simp add: validOrderCreate_def validCustomTimeLimit_def newOrder_def)

lemma find_saveOrder:
  "findOrder i db = Some ord \<Longrightarrow> oid ord' = i \<Longrightarrow> findOrder i (saveOrder ord' db) = Some ord'"
  by (induction db) (auto simp: findOrder_def saveOrder_def split: if_splits)

lemma findOrder_oid: "findOrder i db = Some ord \<Longrightarrow> oid ord = i"
  by (induction db) (auto simp: findOrder_def split: if_splits)

text \<open>
  The recomputation of the handler: a changed limit gives the time of the edit plus the
  new limit in hours, whatever \<open>orderDate\<close> is.
\<close>

lemma recomputeCountdown_from_edit_time:
  "u_customTimeLimit b = Some n \<Longrightarrow> n \<noteq> 0 \<Longrightarrow> n \<noteq> customTimeLimit ord \<Longrightarrow>
   countdownEndTime (recomputeCountdown now b ord) = Some (now + n * 60 * 60 * 1000)"
  by (simp add: recomputeCountdown_def hoursToMs_def)

text \<open>
  The recomputed deadline is the one stored when the body has no \<open>countdownEndTime\<close>.
\<close>

lemma updateOrder_stores_recomputed_deadline:
  assumes "findOrder i db = Some ord" and "u_customTimeLimit b = Some n"
    and "1 \<le> n" and "n \<le> 168" and "n \<noteq> customTimeLimit ord"
    and "u_countdownEndTime b = None"
  shows "\<exists>ord'. updateOrder now i b db = (Inr ord', saveOrder ord' db) \<and>
           findOrder i (saveOrder ord' db) = Some ord' \<and>
           customTimeLimit ord' = n \<and>
           countdownEndTime ord' = Some (now + n * 60 * 60 * 1000)"
proof -
  let ?ord' = "assignOrder (recomputeCountdown now b ord) b"
  have "oid ?ord' = i"
    using findOrder_oid [OF assms(1)] assms(2)
    by (simp add: assignOrder_def recomputeCountdown_def)
  then have "findOrder i (saveOrder ?ord' db) = Some ?ord'"
    using assms(1) by (simp add: find_saveOrder)
  moreover have "updateOrder now i b db = (Inr ?ord', saveOrder ?ord' db)"
    using assms by (simp add: updateOrder_def validOrderUpdate_def validCustomTimeLimit_def
        orderPreSave_def Let_def)
  moreover have "customTimeLimit ?ord' = n"
    and "countdownEndTime ?ord' = Some (now + n * 60 * 60 * 1000)"
    using assms by (simp_all add: assignOrder_def recomputeCountdown_def hoursToMs_def)
  ultimately show ?thesis by blast
qed

text \<open>
  Claim C5. The claim re-bases the deadline from the time of the edit whenever
  \<open>customTimeLimit\<close> is changed. An update at time 5000 that changes the limit of an
  order from 72 to 48 and sends the order's stored \<open>countdownEndTime\<close> back with it:
  the handler recomputes the deadline as 5000 plus 48 hours, then
  \<open>Object.assign(order, req.body)\<close> copies the body's old deadline over it, and the
  order is stored with the new limit and the old deadline.
\<close>

theorem updateOrder_overwrites_recomputed_deadline:
  "countdownEndTime
     (recomputeCountdown 5000 (sampleUpdate (Some 48) (Some 259200000))
        (sampleOrder confirmed (Some 259200000))) = Some 172805000 \<and>
   updateOrder 5000 1 (sampleUpdate (Some 48) (Some 259200000)) [sampleOrder confirmed (Some 259200000)]
   = (Inr \<lparr>oid = 1, supplier = 7, parts = [], orderNumber = Some 1, ostatus = confirmed,
            orderDate = 0, customTimeLimit = 48, countdownEndTime = Some 259200000\<rparr>,
      [\<lparr>oid = 1, supplier = 7, parts = [], orderNumber = Some 1, ostatus = confirmed,
            orderDate = 0, customTimeLimit = 48, countdownEndTime = Some 259200000\<rparr>]) \<and>
   findOrder 1
     (snd (updateOrder 5000 1 (sampleUpdate (Some 48) (Some 259200000))
             [sampleOrder confirmed (Some 259200000)]))
   = Some \<lparr>oid = 1, supplier = 7, parts = [], orderNumber = Some 1, ostatus = confirmed,
            orderDate = 0, customTimeLimit = 48, countdownEndTime = Some 259200000\<rparr> \<and>
   (259200000::int) \<noteq> 5000 + 48 * 60 * 60 * 1000"
  by (simp add: updateOrder_def validOrderUpdate_def validCustomTimeLimit_def findOrder_def
        recomputeCountdown_def assignOrder_def orderPreSave_def saveOrder_def hoursToMs_def Let_def)

text \<open>
  Claim C9. A creation or an update whose \<open>customTimeLimit\<close> is outside \<open>[1,168]\<close> is
  answered with the validation error, and the collection is the one before the request:
  no order is created or changed and no deadline is computed.
\<close>

theorem customTimeLimit_out_of_range_rejected:
  assumes "n < 1 \<or> 168 < n"
  shows "(b_customTimeLimit b = Some n \<longrightarrow>
            createOrder newId tNew tNumber tCountdown b contacts ps db = (Inl ValidationFailed, db)) \<and>
         (u_customTimeLimit u = Some n \<longrightarrow>
            updateOrder now i u db = (Inl ValidationFailed, db))"
  using assms
  by (auto simp: createOrder_def updateOrder_def validOrderCreate_def validOrderUpdate_def
        validCustomTimeLimit_def)

theorem customTimeLimit_out_of_range_rejected_witness:
  "((200::int) < 1 \<or> (168::int) < 200) \<and>
   b_customTimeLimit (sampleOrderBody (Some 200)) = Some 200 \<and>
   createOrder 2 1000 1001 1002 (sampleOrderBody (Some 200)) {7} sampleParts
     [sampleOrder confirmed (Some 259200000)]
   = (Inl ValidationFailed, [sampleOrder confirmed (Some 259200000)]) \<and>
   u_customTimeLimit (sampleUpdate (Some 200) None) = Some 200 \<and>
   updateOrder 5000 1 (sampleUpdate (Some 200) None) [sampleOrder confirmed (Some 259200000)]
   = (Inl ValidationFailed, [sampleOrder confirmed (Some 259200000)])"
  using customTimeLimit_out_of_range_rejected
          [of 200 "sampleOrderBody (Some 200)" 2 1000 1001 1002 "{7}" sampleParts
              "[sampleOrder confirmed (Some 259200000)]" "sampleUpdate (Some 200) None" 5000 1]
  by simp

section \<open>Properties of the appointment routes\<close>

lemma find_saveSchedule:
  "findSchedule i db = Some sch \<Longrightarrow> sid s = i \<Longrightarrow> findSchedule i (saveSchedule s db) = Some s"
  by (induction db) (auto simp: findSchedule_def saveSchedule_def split: if_splits)

lemma findSchedule_sid: "findSchedule i db = Some sch \<Longrightarrow> sid sch = i"
  by (induction db) (auto simp: findSchedule_def split: if_splits)

text \<open>
  Claim C8. For an appointment that exists: starting it is rejected, with the collection
  unchanged, whenever its status is not scheduled, and otherwise stores it with status
  in-progress; completing it is rejected, with both collections unchanged, whenever its
  status is not in-progress, and otherwise stores it with status completed.
\<close>

theorem start_complete_guards:
  assumes "findSchedule i db = Some sch"
  shows "(sstatus sch \<noteq> scheduled \<longrightarrow> startSchedule i db = (Inl CannotStart, db)) \<and>
         (sstatus sch = scheduled \<longrightarrow>
            startSchedule i db =
              (Inr (sch\<lparr>sstatus := in_progress\<rparr>), saveSchedule (sch\<lparr>sstatus := in_progress\<rparr>) db) \<and>
            findSchedule i (snd (startSchedule i db)) = Some (sch\<lparr>sstatus := in_progress\<rparr>)) \<and>
         (sstatus sch \<noteq> in_progress \<longrightarrow> completeSchedule i ps db = (Inl CannotComplete, ps, db)) \<and>
         (sstatus sch = in_progress \<longrightarrow>
            fst (completeSchedule i ps db) = Inr (sch\<lparr>sstatus := completed\<rparr>) \<and>
            snd (snd (completeSchedule i ps db)) = saveSchedule (sch\<lparr>sstatus := completed\<rparr>) db \<and>
            findSchedule i (snd (snd (completeSchedule i ps db))) = Some (sch\<lparr>sstatus := completed\<rparr>))"
proof -
  have "sid sch = i" using assms by (rule findSchedule_sid)
  then have a: "findSchedule i (saveSchedule (sch\<lparr>sstatus := in_progress\<rparr>) db) = Some (sch\<lparr>sstatus := in_progress\<rparr>)"
    and b: "findSchedule i (saveSchedule (sch\<lparr>sstatus := completed\<rparr>) db) = Some (sch\<lparr>sstatus := completed\<rparr>)"
    using assms by (simp_all add: find_saveSchedule)
  show ?thesis
    using assms a b by (simp add: startSchedule_def completeSchedule_def Let_def)
qed

theorem start_complete_guards_witness:
  "findSchedule 4 [sampleSchedule 4 100 200 scheduled (Some 9) []] = Some (sampleSchedule 4 100 200 scheduled (Some 9) []) \<and>
   startSchedule 4 [sampleSchedule 4 100 200 scheduled (Some 9) []]
     = (Inr (sampleSchedule 4 100 200 in_progress (Some 9) []), [sampleSchedule 4 100 200 in_progress (Some 9) []]) \<and>
   completeSchedule 4 sampleParts [sampleSchedule 4 100 200 scheduled (Some 9) []]
     = (Inl CannotComplete, sampleParts, [sampleSchedule 4 100 200 scheduled (Some 9) []])"
  using start_complete_guards [of 4 "[sampleSchedule 4 100 200 scheduled (Some 9) []]"
          "sampleSchedule 4 100 200 scheduled (Some 9) []" sampleParts]
  by (simp add: findSchedule_def saveSchedule_def)

lemma hasConflict_iff:
  "hasConflict ex t s e db \<longleftrightarrow> (\<exists>d\<in>set db. conflictFilter ex t s e d)"
  by (auto simp: hasConflict_def find_None_iff)

text \<open>
  Claim C2. Against one active appointment \<open>d\<close> of the same technician, the query finds
  a conflict for the interval from \<open>s2\<close> to \<open>e2\<close> exactly when
  \<open>startTime d < e2\<close> and \<open>s2 < endTime d\<close>; an interval that starts where \<open>d\<close> ends
  does not conflict. Over a collection the query succeeds exactly when some active
  appointment of the technician, other than the excluded one, overlaps. When the query
  of a creation, or of an update that runs it, finds a conflict, the request is answered
  with the conflict error and the collection is left as it was.
\<close>

theorem conflict_iff_overlap_and_rejected:
  "(assignedTechnician d = Some t \<and> sstatus d \<in> {scheduled, in_progress} \<longrightarrow>
      (hasConflict None t s2 e2 [d] \<longleftrightarrow> startTime d < e2 \<and> s2 < endTime d) \<and>
      \<not> hasConflict None t (endTime d) e2 [d]) \<and>
   (hasConflict ex t s2 e2 db \<longleftrightarrow>
      (\<exists>d\<in>set db. ex \<noteq> Some (sid d) \<and> assignedTechnician d = Some t \<and>
         sstatus d \<in> {scheduled, in_progress} \<and> startTime d < e2 \<and> s2 < endTime d)) \<and>
   (validScheduleCreate b \<and> c_assignedTechnician b = Some t \<and>
    hasConflict None t (c_startTime b) (c_endTime b) db \<longrightarrow>
      createSchedule newId b ps db = (Inl SchedulingConflict, db)) \<and>
   (validScheduleUpdate u \<and> findSchedule i db = Some sch \<and> sstatus sch = scheduled \<and>
    (su_startTime u \<noteq> None \<or> su_endTime u \<noteq> None \<or> su_assignedTechnician u \<noteq> None) \<and>
    (case su_assignedTechnician u of None \<Rightarrow> assignedTechnician sch | Some x \<Rightarrow> Some x) = Some t \<and>
    hasConflict (Some (sid sch)) t
      (case su_startTime u of None \<Rightarrow> startTime sch | Some x \<Rightarrow> x)
      (case su_endTime u of None \<Rightarrow> endTime sch | Some x \<Rightarrow> x) db \<longrightarrow>
      updateSchedule i u db = (Inl SchedulingConflict, db))"
proof (intro conjI impI)
  assume "assignedTechnician d = Some t \<and> sstatus d \<in> {scheduled, in_progress}"
  then show "hasConflict None t s2 e2 [d] \<longleftrightarrow> startTime d < e2 \<and> s2 < endTime d"
    and "\<not> hasConflict None t (endTime d) e2 [d]"
    by (auto simp: hasConflict_def conflictFilter_def)
next
  show "hasConflict ex t s2 e2 db \<longleftrightarrow>
      (\<exists>d\<in>set db. ex \<noteq> Some (sid d) \<and> assignedTechnician d = Some t \<and>
         sstatus d \<in> {scheduled, in_progress} \<and> startTime d < e2 \<and> s2 < endTime d)"
    unfolding hasConflict_iff by (auto simp: conflictFilter_def split: option.splits)
next
  assume "validScheduleCreate b \<and> c_assignedTechnician b = Some t \<and>
    hasConflict None t (c_startTime b) (c_endTime b) db"
  then show "createSchedule newId b ps db = (Inl SchedulingConflict, db)"
    by (simp add: createSchedule_def)
next
  assume "validScheduleUpdate u \<and> findSchedule i db = Some sch \<and> sstatus sch = scheduled \<and>
    (su_startTime u \<noteq> None \<or> su_endTime u \<noteq> None \<or> su_assignedTechnician u \<noteq> None) \<and>
    (case su_assignedTechnician u of None \<Rightarrow> assignedTechnician sch | Some x \<Rightarrow> Some x) = Some t \<and>
    hasConflict (Some (sid sch)) t
      (case su_startTime u of None \<Rightarrow> startTime sch | Some x \<Rightarrow> x)
      (case su_endTime u of None \<Rightarrow> endTime sch | Some x \<Rightarrow> x) db"
  then show "updateSchedule i u db = (Inl SchedulingConflict, db)"
    by (simp add: updateSchedule_def updateConflict_def Let_def)
qed

theorem conflict_iff_overlap_and_rejected_witness:
  "assignedTechnician (sampleSchedule 4 36000000 39600000 scheduled (Some 9) []) = Some 9 \<and>
   sstatus (sampleSchedule 4 36000000 39600000 scheduled (Some 9) []) \<in> {scheduled, in_progress} \<and>
   hasConflict None 9 37800000 41400000 [sampleSchedule 4 36000000 39600000 scheduled (Some 9) []] \<and>
   \<not> hasConflict None 9 39600000 41400000 [sampleSchedule 4 36000000 39600000 scheduled (Some 9) []] \<and>
   validScheduleCreate (sampleScheduleBody 37800000 41400000 (Some 9)) \<and>
   createSchedule 6 (sampleScheduleBody 37800000 41400000 (Some 9)) sampleParts
       [sampleSchedule 4 36000000 39600000 scheduled (Some 9) [],
        sampleSchedule 5 50000000 53600000 scheduled (Some 9) []]
     = (Inl SchedulingConflict,
        [sampleSchedule 4 36000000 39600000 scheduled (Some 9) [],
         sampleSchedule 5 50000000 53600000 scheduled (Some 9) []]) \<and>
   validScheduleUpdate (sampleScheduleUpdate (Some 37800000) (Some 41400000)) \<and>
   findSchedule 5 [sampleSchedule 4 36000000 39600000 scheduled (Some 9) [],
                   sampleSchedule 5 50000000 53600000 scheduled (Some 9) []]
     = Some (sampleSchedule 5 50000000 53600000 scheduled (Some 9) []) \<and>
   updateSchedule 5 (sampleScheduleUpdate (Some 37800000) (Some 41400000))
       [sampleSchedule 4 36000000 39600000 scheduled (Some 9) [],
        sampleSchedule 5 50000000 53600000 scheduled (Some 9) []]
     = (Inl SchedulingConflict,
        [sampleSchedule 4 36000000 39600000 scheduled (Some 9) [],
         sampleSchedule 5 50000000 53600000 scheduled (Some 9) []])"
  using conflict_iff_overlap_and_rejected
          [of "sampleSchedule 4 36000000 39600000 scheduled (Some 9) []" 9 37800000 41400000 None
              "[sampleSchedule 4 36000000 39600000 scheduled (Some 9) [],
                sampleSchedule 5 50000000 53600000 scheduled (Some 9) []]"
              "sampleScheduleBody 37800000 41400000 (Some 9)" 6 sampleParts
              "sampleScheduleUpdate (Some 37800000) (Some 41400000)" 5
              "sampleSchedule 5 50000000 53600000 scheduled (Some 9) []"]
  by (simp add: validScheduleCreate_def validScheduleUpdate_def scheduleTypes_def findSchedule_def
        hasConflict_def conflictFilter_def)






lemma requiredQuantity_nonneg:
  "\<forall>rp\<in>set rps. rp_part rp = pid \<longrightarrow> 0 \<le> rp_quantity rp \<Longrightarrow> 0 \<le> requiredQuantity pid rps"
  by (induction rps) (auto simp: requiredQuantity_def)

lemma useParts_stock:
  "\<forall>rp\<in>set rps. rp_part rp = pid \<longrightarrow> 0 \<le> rp_quantity rp \<Longrightarrow> ps pid = Some p \<Longrightarrow>
   0 \<le> quantityInStock p \<Longrightarrow>
   \<exists>p'. useParts rps ps pid = Some p' \<and>
        quantityInStock p' = max 0 (quantityInStock p - requiredQuantity pid rps)"
proof (induction rps arbitrary: ps p)
  case Nil
  then show ?case by (simp add: requiredQuantity_def)
next
  case (Cons rp rps)
  have nn: "0 \<le> requiredQuantity pid rps"
    using Cons.prems(1) by (simp add: requiredQuantity_nonneg)
  have rest: "\<forall>rp\<in>set rps. rp_part rp = pid \<longrightarrow> 0 \<le> rp_quantity rp" using Cons.prems(1) by simp
  show ?case
  proof (cases "rp_part rp = pid")
    case True
    then have q: "0 \<le> rp_quantity rp" using Cons.prems(1) by simp
    show ?thesis
    proof (cases "rp_quantity rp = 0")
      case True
      with \<open>rp_part rp = pid\<close> Cons.IH [of ps p] rest Cons.prems(2,3)
      show ?thesis by (simp add: requiredQuantity_def)
    next
      case False
      let ?p1 = "p\<lparr>quantityInStock := max 0 (quantityInStock p - rp_quantity rp)\<rparr>"
      have "\<exists>p'. useParts rps (ps(pid \<mapsto> ?p1)) pid = Some p' \<and>
              quantityInStock p' = max 0 (quantityInStock ?p1 - requiredQuantity pid rps)"
        by (rule Cons.IH) (simp_all add: rest)
      moreover have "requiredQuantity pid (rp # rps) = rp_quantity rp + requiredQuantity pid rps"
        using \<open>rp_part rp = pid\<close> by (simp add: requiredQuantity_def)
      ultimately show ?thesis
        using False \<open>rp_part rp = pid\<close> Cons.prems(2) nn q by (auto simp: max_def)
    qed
  next
    case False
    then have r: "requiredQuantity pid (rp # rps) = requiredQuantity pid rps"
      by (simp add: requiredQuantity_def)
    show ?thesis
    proof (cases "ps (rp_part rp)")
      case None
      with Cons.IH [of ps p] rest Cons.prems(2,3) r show ?thesis by simp
    next
      case (Some p2)
      have a: "\<exists>p'. useParts rps
                 (ps(rp_part rp \<mapsto> p2\<lparr>quantityInStock := max 0 (quantityInStock p2 - rp_quantity rp)\<rparr>)) pid
                 = Some p' \<and>
               quantityInStock p' = max 0 (quantityInStock p - requiredQuantity pid rps)"
        using False Cons.prems(2) by (intro Cons.IH) (simp_all add: rest Cons.prems(3))
      have b: "\<exists>p'. useParts rps ps pid = Some p' \<and>
               quantityInStock p' = max 0 (quantityInStock p - requiredQuantity pid rps)"
        by (rule Cons.IH) (simp_all add: rest Cons.prems(2,3))
      show ?thesis
        using a b Some r by simp
    qed
  qed
qed

text \<open>
  Claim C10. Completing an in-progress appointment is accepted, and afterwards the stock
  of every part \<open>pid\<close> of the collection is \<open>max 0\<close> of its previous stock minus the
  quantity the appointment requires of it: never negative, and clamped to zero rather
  than rejected when the requirement exceeds the stock. The quantities of the entries
  that name the part are taken to be non-negative, and the previous stock to respect the
  schema's minimum of 0.
\<close>

theorem complete_decrements_stock_clamped:
  assumes "findSchedule i db = Some sch" and "sstatus sch = in_progress"
    and "\<forall>rp\<in>set (requiredParts sch). rp_part rp = pid \<longrightarrow> 0 \<le> rp_quantity rp"
    and "ps pid = Some p" and "0 \<le> quantityInStock p"
  shows "\<exists>s ps' db' p'. completeSchedule i ps db = (Inr s, ps', db') \<and> sstatus s = completed \<and>
           ps' pid = Some p' \<and>
           quantityInStock p' = max 0 (quantityInStock p - requiredQuantity pid (requiredParts sch)) \<and>
           0 \<le> quantityInStock p'"
proof -
  obtain p' where "useParts (requiredParts sch) ps pid = Some p'"
    and "quantityInStock p' = max 0 (quantityInStock p - requiredQuantity pid (requiredParts sch))"
    using useParts_stock [of "requiredParts sch" pid ps p] assms(3,4,5) by blast
  then show ?thesis
    using assms(1,2) by (cases "requiredParts sch") (auto simp: completeSchedule_def Let_def)
qed

theorem complete_decrements_stock_clamped_witness:
  "findSchedule 4 [sampleSchedule 4 100 200 in_progress (Some 9)
                     [\<lparr>rp_part = 3, rp_quantity = 8, rp_isAvailable = False\<rparr>]]
     = Some (sampleSchedule 4 100 200 in_progress (Some 9)
                     [\<lparr>rp_part = 3, rp_quantity = 8, rp_isAvailable = False\<rparr>]) \<and>
   sampleParts 3 = Some \<lparr>quantityInStock = 5\<rparr> \<and>
   (\<exists>s ps' db' p'. completeSchedule 4 sampleParts
        [sampleSchedule 4 100 200 in_progress (Some 9)
           [\<lparr>rp_part = 3, rp_quantity = 8, rp_isAvailable = False\<rparr>]] = (Inr s, ps', db') \<and>
      sstatus s = completed \<and> ps' 3 = Some p' \<and> quantityInStock p' = max 0 (5 - 8) \<and>
      0 \<le> quantityInStock p')"
  using complete_decrements_stock_clamped
          [of 4 "[sampleSchedule 4 100 200 in_progress (Some 9)
                    [\<lparr>rp_part = 3, rp_quantity = 8, rp_isAvailable = False\<rparr>]]"
              "sampleSchedule 4 100 200 in_progress (Some 9)
                    [\<lparr>rp_part = 3, rp_quantity = 8, rp_isAvailable = False\<rparr>]"
              3 sampleParts "\<lparr>quantityInStock = 5\<rparr>"]
  by (simp add: findSchedule_def requiredQuantity_def)

end
